theory Spec2Isabelle
  imports Main "HOL-Library.Sublist"
begin

section \<open>Text\<close>

text \<open>
  A Python \<open>str\<close> is modelled as a \<open>string\<close>; a \<open>char\<close> stands for the code
  point of the same number, so the texts covered are those of code points below 256.
  The character classes below are the ones Python 3 uses on that range:
  \<open>str.isspace\<close> for \<open>strip\<close>/\<open>rstrip\<close>, and the classes \<open>\d\<close> and \<open>\w\<close> of
  the module \<open>re\<close> on \<open>str\<close> patterns.
\<close>

definition py_isspace :: "char \<Rightarrow> bool" where
  "py_isspace c \<longleftrightarrow>
     (of_char c :: nat) \<in> {9, 10, 11, 12, 13, 28, 29, 30, 31, 32, 133, 160}"

definition lstrip :: "string \<Rightarrow> string" where
  "lstrip s = dropWhile py_isspace s"

definition rstrip :: "string \<Rightarrow> string" where
  "rstrip s = rev (dropWhile py_isspace (rev s))"

definition strip :: "string \<Rightarrow> string" where
  "strip s = rstrip (lstrip s)"

text \<open>\<open>sub in s\<close>: \<open>sub\<close> occurs in \<open>s\<close> as a contiguous piece.\<close>

fun py_in :: "string \<Rightarrow> string \<Rightarrow> bool" where
  "py_in sub [] = (sub = [])"
| "py_in sub (c # cs) = (prefix sub (c # cs) \<or> py_in sub cs)"

definition re_digit :: "char \<Rightarrow> bool" where
  "re_digit c \<longleftrightarrow> c \<in> set ''0123456789''"

definition re_word :: "char \<Rightarrow> bool" where
  "re_word c \<longleftrightarrow>
     c \<in> set ''abcdefghijklmnopqrstuvwxyzABCDEFGHIJKLMNOPQRSTUVWXYZ0123456789_'' \<or>
     (of_char c :: nat) \<in> {170, 178, 179, 181, 185, 186, 188, 189, 190} \<or>
     (192 \<le> (of_char c :: nat) \<and> (of_char c :: nat) \<le> 255 \<and>
      (of_char c :: nat) \<noteq> 215 \<and> (of_char c :: nat) \<noteq> 247)"

text \<open>
  The pattern \<open>\b(76\d{15})\b\<close> at one position of a text: \<open>prev\<close> is the character
  before the position (none at the start), \<open>s\<close> the text from the position on. The
  pattern has a fixed length of 17, so a position either matches or does not. The
  first character of a match is a word character, so the leading \<open>\b\<close> asks that
  \<open>prev\<close> is none; the trailing \<open>\b\<close> asks the same of the character after the match.
\<close>

definition id_match_at :: "char option \<Rightarrow> string \<Rightarrow> bool" where
  "id_match_at prev s \<longleftrightarrow>
     (case prev of None \<Rightarrow> True | Some p \<Rightarrow> \<not> re_word p) \<and>
     17 \<le> length s \<and>
     take 2 s = ''76'' \<and>
     list_all re_digit (take 15 (drop 2 s)) \<and>
     (case drop 17 s of [] \<Rightarrow> True | n # _ \<Rightarrow> \<not> re_word n)"

text \<open>\<open>re.search(r"\b(76\d{15})\b", s)\<close>, as group 1 of the leftmost match.\<close>

fun re_search_from :: "char option \<Rightarrow> string \<Rightarrow> string option" where
  "re_search_from prev [] = None"
| "re_search_from prev (c # cs) =
     (if id_match_at prev (c # cs) then Some (take 17 (c # cs))
      else re_search_from (Some c) cs)"

definition re_search_id :: "string \<Rightarrow> string option" where
  "re_search_id s = re_search_from None s"

text \<open>
  \<open>re.findall(r"\b(76\d{15})\b", s)\<close>: the matches from left to right, the scan
  going on after the end of each match.
\<close>

function re_findall_from :: "char option \<Rightarrow> string \<Rightarrow> string list" where
  "re_findall_from prev [] = []"
| "re_findall_from prev (c # cs) =
     (if id_match_at prev (c # cs)
      then take 17 (c # cs) # re_findall_from (Some ((c # cs) ! 16)) (drop 17 (c # cs))
      else re_findall_from (Some c) cs)"
  by pat_completeness auto
termination
  by (relation "measure (\<lambda>(prev, s). length s)") auto

definition re_findall_id :: "string \<Rightarrow> string list" where
  "re_findall_id s = re_findall_from None s"

section \<open>The environment and the shared state\<close>

abbreviation LF :: char where "LF \<equiv> CHR 0x0A"
abbreviation CR :: char where "CR \<equiv> CHR 0x0D"

datatype platform = Posix | Windows

fun os_linesep :: "platform \<Rightarrow> string" where
  "os_linesep Posix = [LF]"
| "os_linesep Windows = [CR, LF]"

fun os_sep :: "platform \<Rightarrow> string" where
  "os_sep Posix = ''/''"
| "os_sep Windows = [CHR 0x5C]"

text \<open>
  What a path holds: nothing, something that exists and whose reading raises (a
  directory, a file without permission) with the text of the exception, or a file
  with its content.
\<close>

datatype file_state = Absent | Unreadable string | File string

datatype py_error = OSError string | AttributeError string | NameError string

fun error_text :: "py_error \<Rightarrow> string" where
  "error_text (OSError e) = e"
| "error_text (AttributeError e) = e"
| "error_text (NameError e) = e"

text \<open>
  What \<open>subprocess.Popen\<close> does with a command: it raises, with the text of the
  exception, or the process runs, prints the lines that iterating over its output
  yields, and exits with a return code.
\<close>

datatype proc_outcome = Start_fails string | Runs "string list" int

datatype level = INFO | WARNING | ERROR

datatype op_result = FINISHED | CANCELLED

text \<open>The value a timer callback returns: \<open>None\<close>, or \<open>0.5\<close> to be called again.\<close>

datatype timer_ret = Stop | Again

text \<open>
  A worker object. Its \<open>out_buffer\<close> is the one list \<open>_status_lines\<close> of the
  preferences class and its \<open>prefs_ref\<close> the one preferences object, so neither needs
  a field; \<open>done_flag\<close> is a reference to a dictionary, and \<open>tid\<close> names the thread.
\<close>

record login_worker =
  lw_username :: string
  lw_password :: string
  lw_cmd_args :: "string list"
  lw_done_flag :: nat
  lw_tid :: nat

record build_worker =
  bw_cmd_args :: "string list"
  bw_done_flag :: nat
  bw_tid :: nat

datatype poller = Check_done login_worker | Check build_worker

text \<open>
  The world: the operating system as the add-on sees it, the preferences object
  (\<open>steam_username\<close>, \<open>steam_password\<close>, \<open>steamid64\<close>, \<open>status_lines\<close> and
  \<open>worker_done\<close>, a reference into the store \<open>dicts\<close> of dictionaries), and the host
  application (threads, timers, reports, areas to redraw).
\<close>

record world =
  platform :: platform
  addon_dir :: string
  getenv :: "string \<rightharpoonup> string"
  files :: "string \<Rightarrow> file_state"
  write_error :: "string \<rightharpoonup> string"
  popen :: "string list \<Rightarrow> string \<Rightarrow> proc_outcome"
  printed :: "string list"
  steam_username :: string
  steam_password :: string
  steamid64 :: string
  status_lines :: "string list"
  dicts :: "nat \<Rightarrow> (string \<rightharpoonup> bool)"
  next_dict :: nat
  worker_done :: nat
  alive :: "nat \<Rightarrow> bool"
  next_tid :: nat
  timers :: "poller list"
  reports :: "(level \<times> string) list"
  areas :: "string list list"
  redraws :: nat

section \<open>Helpers\<close>

definition path_join :: "platform \<Rightarrow> string \<Rightarrow> string \<Rightarrow> string" where
  "path_join pl a b = a @ os_sep pl @ b"

definition bundled_steamcmd_path :: "world \<Rightarrow> string" where
  "bundled_steamcmd_path w =
     path_join (platform w) (path_join (platform w) (addon_dir w) ''steamcmd'') ''steamcmd.exe''"

definition steamcmd_dir :: "world \<Rightarrow> string" where
  "steamcmd_dir w = path_join (platform w) (addon_dir w) ''steamcmd''"

definition steamid64_txt_path :: "world \<Rightarrow> string" where
  "steamid64_txt_path w = path_join (platform w) (addon_dir w) ''steamid64.txt''"

definition path_exists :: "world \<Rightarrow> string \<Rightarrow> bool" where
  "path_exists w p \<longleftrightarrow> files w p \<noteq> Absent"

text \<open>
  \<open>Path.write_text\<close> and \<open>Path.read_text\<close> open the file in text mode with the default
  \<open>newline=None\<close>: on writing each line feed becomes \<open>os.linesep\<close>; on reading each of
  \<open>\r\n\<close>, \<open>\r\<close> and \<open>\n\<close> becomes a line feed.
\<close>

definition text_out :: "platform \<Rightarrow> string \<Rightarrow> string" where
  "text_out pl s = concat (map (\<lambda>c. if c = LF then os_linesep pl else [c]) s)"

text \<open>\<open>after_cr\<close>: the character before was a carriage return, already turned into a line feed.\<close>

fun universal_newlines :: "bool \<Rightarrow> string \<Rightarrow> string" where
  "universal_newlines after_cr [] = []"
| "universal_newlines after_cr (c # cs) =
     (if c = CR then LF # universal_newlines True cs
      else if c = LF \<and> after_cr then universal_newlines False cs
      else c # universal_newlines False cs)"

definition write_text :: "string \<Rightarrow> string \<Rightarrow> world \<Rightarrow> py_error + world" where
  "write_text p s w =
     (case write_error w p of
        Some e \<Rightarrow> Inl (OSError e)
      | None \<Rightarrow> Inr (w\<lparr>files := (files w)(p := File (text_out (platform w) s))\<rparr>))"

definition read_text :: "string \<Rightarrow> world \<Rightarrow> py_error + string" where
  "read_text p w =
     (case files w p of
        Absent \<Rightarrow> Inl (OSError ''No such file or directory'')
      | Unreadable e \<Rightarrow> Inl (OSError e)
      | File s \<Rightarrow> Inr (universal_newlines False s))"

definition write_steamid64_to_file :: "string \<Rightarrow> world \<Rightarrow> world" where
  "write_steamid64_to_file steamid w =
     (case write_text (steamid64_txt_path w) (strip steamid @ [LF]) w of
        Inr w' \<Rightarrow> w'
      | Inl e \<Rightarrow>
          w\<lparr>printed := printed w @
               [''[wrsr_workshop_io] Failed to write steamid64.txt: '' @ error_text e]\<rparr>)"

definition read_steamid64_from_file :: "world \<Rightarrow> string" where
  "read_steamid64_from_file w =
     (if path_exists w (steamid64_txt_path w) then
        (case read_text (steamid64_txt_path w) w of
           Inr s \<Rightarrow> strip s
         | Inl e \<Rightarrow> [])
      else [])"

section \<open>Dictionaries of flags\<close>

text \<open>
  \<open>d.get(k)\<close> and \<open>d.get(k, False)\<close> read as a condition: a missing key gives \<open>None\<close>
  or \<open>False\<close>, both of which count as false.
\<close>

definition dict_get :: "(string \<rightharpoonup> bool) \<Rightarrow> string \<Rightarrow> bool" where
  "dict_get d k = (case d k of None \<Rightarrow> False | Some b \<Rightarrow> b)"

text \<open>\<open>d[k] = v\<close> on the dictionary behind the reference \<open>r\<close>.\<close>

definition dict_set :: "nat \<Rightarrow> string \<Rightarrow> bool \<Rightarrow> world \<Rightarrow> world" where
  "dict_set r k v w = w\<lparr>dicts := (dicts w)(r := (dicts w r)(k \<mapsto> v))\<rparr>"

text \<open>A new dictionary \<open>{"ok": False, "running": True}\<close>, assigned to \<open>prefs._worker_done\<close>.\<close>

definition reset_worker_done :: "world \<Rightarrow> world" where
  "reset_worker_done w =
     w\<lparr>dicts := (dicts w)(next_dict w := [''ok'' \<mapsto> False, ''running'' \<mapsto> True]),
       worker_done := next_dict w,
       next_dict := Suc (next_dict w)\<rparr>"

definition append_status :: "string \<Rightarrow> world \<Rightarrow> world" where
  "append_status ln w = w\<lparr>status_lines := status_lines w @ [ln]\<rparr>"

section \<open>Background workers\<close>

definition tail_limit :: nat where
  "tail_limit = 50"

text \<open>
  One pass of the rolling buffer: append the line and, if the list is now longer than
  \<open>tail_limit\<close>, delete its first element.
\<close>

definition keep_tail :: "string list \<Rightarrow> string \<Rightarrow> string list" where
  "keep_tail buf line =
     (let buf' = buf @ [line] in if length buf' > tail_limit then tl buf' else buf')"

text \<open>
  The loop over the output of the login process. Its state is the buffer, \<open>login_ok\<close>
  and \<open>steamid_candidate\<close> (\<open>None\<close> at the start).
\<close>

fun login_scan :: "string list \<Rightarrow> string list \<times> bool \<times> string option
    \<Rightarrow> string list \<times> bool \<times> string option" where
  "login_scan [] st = st"
| "login_scan (raw # rest) (buf, login_ok, steamid_candidate) =
     (let line = rstrip raw;
          buf' = keep_tail buf line;
          login_ok' =
            (if py_in ''Logged in OK'' line \<or> py_in ''Waiting for user info...OK'' line
             then True else login_ok);
          steamid_candidate' =
            (case re_search_id line of Some m \<Rightarrow> Some m | None \<Rightarrow> steamid_candidate)
      in login_scan rest (buf', login_ok', steamid_candidate'))"

text \<open>
  The identifier the loop ends with, written on its own: every line with a match
  replaces what was found before.
\<close>

fun last_candidate :: "string list \<Rightarrow> string option \<Rightarrow> string option" where
  "last_candidate [] c = c"
| "last_candidate (raw # rest) c =
     last_candidate rest (case re_search_id (rstrip raw) of Some m \<Rightarrow> Some m | None \<Rightarrow> c)"

text \<open>\<open>if steamid_candidate:\<close> holds for a text that is not empty.\<close>

fun truthy_str :: "string option \<Rightarrow> bool" where
  "truthy_str None = False"
| "truthy_str (Some s) = (s \<noteq> [])"

definition SteamCmdWorker_run :: "login_worker \<Rightarrow> world \<Rightarrow> world" where
  "SteamCmdWorker_run self w =
     (let scmd = bundled_steamcmd_path w in
      if \<not> path_exists w scmd then
        dict_set (lw_done_flag self) ''ok'' False
          (append_status (''steamcmd not found: '' @ scmd) w)
      else
        (case popen w [scmd, ''+login'', lw_username self, lw_password self, ''+quit'']
                (steamcmd_dir w) of
           Start_fails e \<Rightarrow>
             dict_set (lw_done_flag self) ''ok'' False
               (append_status (''Failed to start steamcmd: '' @ e) w)
         | Runs out returncode \<Rightarrow>
             (case login_scan out (status_lines w, False, None) of
                (buf, login_ok, steamid_candidate) \<Rightarrow>
                  (let w1 = w\<lparr>status_lines := buf\<rparr>;
                       w2 = dict_set (lw_done_flag self) ''ok''
                              (login_ok \<and> returncode = 0) w1
                   in if truthy_str steamid_candidate
                      then (write_steamid64_to_file (the steamid_candidate) w2)
                             \<lparr>steamid64 := the steamid_candidate\<rparr>
                      else w2))))"

fun build_scan :: "string list \<Rightarrow> string list \<Rightarrow> string list" where
  "build_scan [] buf = buf"
| "build_scan (raw # rest) buf = build_scan rest (keep_tail buf (rstrip raw))"

definition SteamCmdBuildWorker_run :: "build_worker \<Rightarrow> world \<Rightarrow> world" where
  "SteamCmdBuildWorker_run self w =
     (let scmd = bundled_steamcmd_path w in
      if \<not> path_exists w scmd then
        dict_set (bw_done_flag self) ''ok'' False
          (append_status (''steamcmd not found: '' @ scmd) w)
      else
        (case popen w (bw_cmd_args self) (steamcmd_dir w) of
           Start_fails e \<Rightarrow>
             dict_set (bw_done_flag self) ''ok'' False
               (append_status (''Failed to start steamcmd: '' @ e) w)
         | Runs out returncode \<Rightarrow>
             dict_set (bw_done_flag self) ''ok'' (returncode = 0)
               (w\<lparr>status_lines := build_scan out (status_lines w)\<rparr>)))"

text \<open>
  Threads. \<open>start\<close> makes the thread alive; the thread executes \<open>run\<close> and is no longer
  alive when \<open>run\<close> has returned. The whole of \<open>run\<close> is one step here.
\<close>

definition thread_start :: "nat \<Rightarrow> world \<Rightarrow> world" where
  "thread_start t w = w\<lparr>alive := (alive w)(t := True)\<rparr>"

definition login_thread_body :: "login_worker \<Rightarrow> world \<Rightarrow> world" where
  "login_thread_body self w =
     (let w' = SteamCmdWorker_run self w in w'\<lparr>alive := (alive w')(lw_tid self := False)\<rparr>)"

definition build_thread_body :: "build_worker \<Rightarrow> world \<Rightarrow> world" where
  "build_thread_body self w =
     (let w' = SteamCmdBuildWorker_run self w in w'\<lparr>alive := (alive w')(bw_tid self := False)\<rparr>)"

section \<open>Operators and completion pollers\<close>

definition report :: "level \<Rightarrow> string \<Rightarrow> world \<Rightarrow> world" where
  "report lv msg w = w\<lparr>reports := reports w @ [(lv, msg)]\<rparr>"

text \<open>The redraw loop tags every area of type \<open>PREFERENCES\<close> of every window.\<close>

definition tag_redraws :: "world \<Rightarrow> world" where
  "tag_redraws w =
     w\<lparr>redraws := redraws w + length (filter (\<lambda>a. a = ''PREFERENCES'') (concat (areas w)))\<rparr>"

definition WRSR_OT_LoginSteamCmd_execute :: "world \<Rightarrow> op_result \<times> login_worker \<times> world" where
  "WRSR_OT_LoginSteamCmd_execute w =
     (let w1 = w\<lparr>status_lines := []\<rparr>;
          w2 = reset_worker_done w1;
          login_args = [bundled_steamcmd_path w2, ''+login'', steam_username w2,
                        steam_password w2, ''+quit''];
          worker = \<lparr>lw_username = steam_username w2, lw_password = steam_password w2,
                    lw_cmd_args = login_args, lw_done_flag = worker_done w2,
                    lw_tid = next_tid w2\<rparr>;
          w3 = thread_start (lw_tid worker) (w2\<lparr>next_tid := Suc (next_tid w2)\<rparr>);
          w4 = w3\<lparr>timers := timers w3 @ [Check_done worker]\<rparr>
      in (FINISHED, worker, w4))"

text \<open>The closure \<open>_check_done\<close> of the login operator, for its \<open>worker\<close>.\<close>

definition check_done :: "login_worker \<Rightarrow> world \<Rightarrow> timer_ret \<times> world" where
  "check_done worker w =
     (if dict_get (dicts w (worker_done w)) ''running'' \<and> \<not> alive w (lw_tid worker) then
        (let w1 = dict_set (worker_done w) ''running'' False w;
             ok = dict_get (dicts w1 (worker_done w1)) ''ok'';
             w2 = (if ok then
                     (if steamid64 w1 = [] then
                        (let existing = read_steamid64_from_file w1
                         in if existing \<noteq> [] then w1\<lparr>steamid64 := existing\<rparr> else w1)
                      else w1)
                   else append_status ''Login did not complete successfully.'' w1)
         in (Stop, tag_redraws w2))
      else (Again, w))"

text \<open>
  \<open>_default_steam_paths\<close>. A path is the text \<open>str\<close> gives for it. The path made from
  the empty text is \<open>.\<close>, and joining a name to it gives the name alone; the other
  normalisations of \<open>pathlib\<close> are left out. Every \<open>Path\<close> object counts as true, so
  the final filter only asks that the text is not empty.
\<close>

definition getenv_default :: "world \<Rightarrow> string \<Rightarrow> string \<Rightarrow> string" where
  "getenv_default w k d = (case getenv w k of Some v \<Rightarrow> v | None \<Rightarrow> d)"

definition Path :: "string \<Rightarrow> string" where
  "Path s = (if s = [] then ''.'' else s)"

definition path_div :: "platform \<Rightarrow> string \<Rightarrow> string \<Rightarrow> string" where
  "path_div pl a b = (if a = ''.'' then b else path_join pl a b)"

definition default_steam_paths :: "world \<Rightarrow> string list" where
  "default_steam_paths w =
     (let pd = path_div (platform w);
          candidates =
            [pd (pd (pd (Path (getenv_default w ''PROGRAMFILES(X86)''
                               (''C:'' @ [CHR 0x5C, CHR 0x5C] @ ''Program Files (x86)'')))
                        ''Steam'') ''config'') ''loginusers.vdf'',
             pd (pd (pd (Path (getenv_default w ''PROGRAMFILES''
                               (''C:'' @ [CHR 0x5C, CHR 0x5C] @ ''Program Files'')))
                        ''Steam'') ''config'') ''loginusers.vdf'',
             Path (getenv_default w ''STEAM_CONFIG'' [])]
      in filter (\<lambda>p. p \<noteq> []) candidates)"

text \<open>
  The loop of the detection operator over the candidates; it gives \<open>found\<close> and the
  world, in which an unreadable candidate has left a printed line.
\<close>

fun detect_scan :: "string list \<Rightarrow> world \<Rightarrow> string option \<times> world" where
  "detect_scan [] w = (None, w)"
| "detect_scan (vdf # rest) w =
     (if path_exists w vdf then
        (case read_text vdf w of
           Inl e \<Rightarrow>
             detect_scan rest
               (w\<lparr>printed := printed w @
                    [''[wrsr_workshop_io] Could not read '' @ vdf @ '': '' @ error_text e]\<rparr>)
         | Inr txt \<Rightarrow>
             (case re_findall_id txt of
                [] \<Rightarrow> detect_scan rest w
              | m0 # ms \<Rightarrow> (Some m0, w)))
      else detect_scan rest w)"

definition WRSR_OT_DetectSteamID_execute :: "world \<Rightarrow> op_result \<times> world" where
  "WRSR_OT_DetectSteamID_execute w =
     (case detect_scan (default_steam_paths w) w of
        (found, w1) \<Rightarrow>
          if truthy_str found then
            (FINISHED,
             report INFO (''Detected SteamID64: '' @ the found)
               (write_steamid64_to_file (the found) (w1\<lparr>steamid64 := the found\<rparr>)))
          else
            (CANCELLED,
             report WARNING
               ''Could not detect SteamID64 automatically. Please enter it manually.'' w1))"

definition quoted :: "string \<Rightarrow> string" where
  "quoted s = CHR 0x22 # s @ [CHR 0x22]"

definition vdf_text :: string where
  "vdf_text =
     quoted ''workshopitem'' @ [LF] @
     ''{'' @ [LF] @
     ''   '' @ quoted ''appid'' @ '' '' @ quoted ''784150'' @ [LF] @
     ''   '' @ quoted ''contentfolder'' @ '' '' @ quoted [] @ [LF] @
     ''   '' @ quoted ''previewfile'' @ '' '' @ quoted [] @ [LF] @
     ''   '' @ quoted ''visibility'' @ '' '' @ quoted ''2'' @ [LF] @
     ''   '' @ quoted ''title'' @ '' '' @ quoted ''New Workshop Item'' @ [LF] @
     ''   '' @ quoted ''description'' @ '' '' @ quoted ''Created via Blender addon'' @ [LF] @
     ''}'' @ [LF]"

text \<open>
  The build operator. Writing the manifest is not guarded: when it raises, the
  exception leaves \<open>execute\<close>, after the reset and before any thread.
\<close>

definition WRSR_OT_CreateNewItem_execute ::
    "world \<Rightarrow> (py_error + op_result \<times> build_worker) \<times> world" where
  "WRSR_OT_CreateNewItem_execute w =
     (let w1 = w\<lparr>status_lines := []\<rparr>;
          w2 = reset_worker_done w1;
          vdf_path = path_join (platform w2) (addon_dir w2) ''workshop.vdf''
      in case write_text vdf_path vdf_text w2 of
           Inl e \<Rightarrow> (Inl e, w2)
         | Inr w3 \<Rightarrow>
             (let args = [bundled_steamcmd_path w3, ''+login'', steam_username w3,
                          steam_password w3, ''+workshop_build_item'', vdf_path, ''+quit''];
                  worker = \<lparr>bw_cmd_args = args, bw_done_flag = worker_done w3,
                            bw_tid = next_tid w3\<rparr>;
                  w4 = thread_start (bw_tid worker) (w3\<lparr>next_tid := Suc (next_tid w3)\<rparr>);
                  w5 = w4\<lparr>timers := timers w4 @ [Check worker]\<rparr>
              in (Inr (FINISHED, worker), w5)))"

text \<open>
  Reading an attribute of a build worker by name. The object has the three
  attributes its \<open>__init__\<close> sets and what it inherits from \<open>threading.Thread\<close>: public
  names, listed here, and internal ones, all of which start with an underscore.
\<close>

datatype attr_value = Args "string list" | Status_list | Dict_ref nat | Inherited

definition thread_public_names :: "string list" where
  "thread_public_names =
     [''daemon'', ''getName'', ''ident'', ''isDaemon'', ''is_alive'', ''join'', ''name'',
      ''native_id'', ''run'', ''setDaemon'', ''setName'', ''start'']"

definition build_worker_getattr :: "build_worker \<Rightarrow> string \<Rightarrow> py_error + attr_value" where
  "build_worker_getattr self name =
     (if name = ''cmd_args'' then Inr (Args (bw_cmd_args self))
      else if name = ''out_buffer'' then Inr Status_list
      else if name = ''done_flag'' then Inr (Dict_ref (bw_done_flag self))
      else if name \<in> set thread_public_names \<or> take 1 name = ''_'' then Inr Inherited
      else Inl (AttributeError name))"

text \<open>
  A list or a dictionary counts as true when it is not empty; \<open>ok\<close> and \<open>running\<close> are
  the only keys the add-on ever stores.
\<close>

fun attr_truthy :: "world \<Rightarrow> attr_value \<Rightarrow> bool" where
  "attr_truthy w (Args xs) = (xs \<noteq> [])"
| "attr_truthy w Status_list = (status_lines w \<noteq> [])"
| "attr_truthy w (Dict_ref r) = (dicts w r ''ok'' \<noteq> None \<or> dicts w r ''running'' \<noteq> None)"
| "attr_truthy w Inherited = True"

text \<open>
  The closure \<open>_check\<close> of the build operator. The name \<open>scene\<close> it assigns through is
  bound neither in \<open>execute\<close> nor in the module.
\<close>

definition check :: "build_worker \<Rightarrow> world \<Rightarrow> (py_error + timer_ret) \<times> world" where
  "check worker w =
     (if dict_get (dicts w (worker_done w)) ''running'' \<and> \<not> alive w (bw_tid worker) then
        (let w1 = dict_set (worker_done w) ''running'' False w
         in case build_worker_getattr worker ''new_item_id'' of
              Inl e \<Rightarrow> (Inl e, w1)
            | Inr v \<Rightarrow>
                if attr_truthy w1 v then (Inl (NameError ''scene''), w1)
                else (Inr Stop, report ERROR ''Failed to create Workshop item'' w1))
      else (Inr Again, w))"

section \<open>Whole jobs\<close>

text \<open>
  A login job from the click to the poll that ends it: the operator, then the whole
  thread (\<open>login_job_run\<close> stops here), then one call of the poller.
\<close>

definition login_job :: "world \<Rightarrow> world" where
  "login_job w =
     (case WRSR_OT_LoginSteamCmd_execute w of
        (r, worker, w1) \<Rightarrow> snd (check_done worker (login_thread_body worker w1)))"

definition login_job_run :: "world \<Rightarrow> world" where
  "login_job_run w =
     (case WRSR_OT_LoginSteamCmd_execute w of
        (r, worker, w1) \<Rightarrow> login_thread_body worker w1)"

definition build_job :: "world \<Rightarrow> (py_error + timer_ret) \<times> world" where
  "build_job w =
     (case WRSR_OT_CreateNewItem_execute w of
        (Inl e, w1) \<Rightarrow> (Inl e, w1)
      | (Inr (r, worker), w1) \<Rightarrow> check worker (build_thread_body worker w1))"

text \<open>The identifier store: a write followed by a read.\<close>

definition write_then_read :: "string \<Rightarrow> world \<Rightarrow> string" where
  "write_then_read x w = read_steamid64_from_file (write_steamid64_to_file x w)"

text \<open>
  What one candidate path yields to the detection operator: the matches in its text,
  none if the path is absent or cannot be read.
\<close>

definition candidate_ids :: "world \<Rightarrow> string \<Rightarrow> string list" where
  "candidate_ids w p =
     (if path_exists w p then
        (case read_text p w of Inr txt \<Rightarrow> re_findall_id txt | Inl e \<Rightarrow> [])
      else [])"

section \<open>Sample worlds\<close>

text \<open>
  A machine on which nothing is installed and a previous job has left a line and its
  flags behind; then the same machine with the executable in place and a process
  that prints given lines and exits with a given code.
\<close>

definition bare_world :: world where
  "bare_world =
     \<lparr>platform = Posix, addon_dir = ''addon'', getenv = Map.empty,
      files = (\<lambda>p. Absent), write_error = Map.empty,
      popen = (\<lambda>cmd cwd. Start_fails ''not started''), printed = [],
      steam_username = ''user'', steam_password = ''secret'', steamid64 = [],
      status_lines = [''line of an earlier job''],
      dicts = (\<lambda>r. Map.empty)(0 := [''ok'' \<mapsto> True, ''running'' \<mapsto> False]),
      next_dict = 1, worker_done = 0, alive = (\<lambda>t. False), next_tid = 0, timers = [],
      reports = [], areas = [ [''PREFERENCES'', ''VIEW_3D'']], redraws = 0\<rparr>"

definition sample_login_worker :: login_worker where
  "sample_login_worker =
     \<lparr>lw_username = ''user'', lw_password = ''secret'', lw_cmd_args = [],
      lw_done_flag = 0, lw_tid = 0\<rparr>"

definition installed_world :: "string list \<Rightarrow> int \<Rightarrow> world" where
  "installed_world out rc =
     bare_world\<lparr>files := (files bare_world)(bundled_steamcmd_path bare_world := File []),
                popen := (\<lambda>cmd cwd. Runs out rc)\<rparr>"

section \<open>Names for the parts of a job\<close>

text \<open>Some line of the output carries one of the two success markers.\<close>

definition has_marker :: "string list \<Rightarrow> bool" where
  "has_marker out \<longleftrightarrow>
     (\<exists>line\<in>set out. py_in ''Logged in OK'' line \<or> py_in ''Waiting for user info...OK'' line)"

text \<open>
  The worker object the login operator creates and the world it leaves behind, with
  the thread started and the poller registered.
\<close>

definition login_worker_of :: "world \<Rightarrow> login_worker" where
  "login_worker_of w = fst (snd (WRSR_OT_LoginSteamCmd_execute w))"

definition login_started :: "world \<Rightarrow> world" where
  "login_started w = snd (snd (WRSR_OT_LoginSteamCmd_execute w))"

text \<open>The worker object the build operator creates when the manifest could be written.\<close>

definition build_worker_of :: "world \<Rightarrow> build_worker" where
  "build_worker_of w =
     \<lparr>bw_cmd_args = [bundled_steamcmd_path w, ''+login'', steam_username w, steam_password w,
                     ''+workshop_build_item'',
                     path_join (platform w) (addon_dir w) ''workshop.vdf'', ''+quit''],
      bw_done_flag = next_dict w, bw_tid = next_tid w\<rparr>"

text \<open>
  Two more sample worlds: one in which a successful login job has ended and the poller
  has not run yet, with a given identifier field and identifier file; and one with a
  Steam configuration file that the environment variable \<open>STEAM_CONFIG\<close> points to.
\<close>

definition finished_login_world :: "string \<Rightarrow> string \<Rightarrow> world" where
  "finished_login_world sid txt =
     bare_world\<lparr>files := (files bare_world)(''addon/steamid64.txt'' := File txt),
                steamid64 := sid,
                dicts := (dicts bare_world)(0 := [''ok'' \<mapsto> True, ''running'' \<mapsto> True])\<rparr>"

definition steam_world :: world where
  "steam_world =
     bare_world\<lparr>getenv := [''STEAM_CONFIG'' \<mapsto> ''cfg.vdf''],
                files := (files bare_world)
                  (''cfg.vdf'' := File ''x 76561198012345678 y 76561198087654321'')\<rparr>"

section \<open>Properties\<close>

subsection \<open>The sample worlds\<close>

lemma bare_world_simps:
  "platform bare_world = Posix"
  "addon_dir bare_world = ''addon''"
  "files bare_world p = Absent"
  "write_error bare_world p = None"
  "popen bare_world cmd cwd = Start_fails ''not started''"
  "getenv bare_world k = None"
  "printed bare_world = []"
  "steam_username bare_world = ''user''"
  "steam_password bare_world = ''secret''"
  "steamid64 bare_world = []"
  "status_lines bare_world = [''line of an earlier job'']"
  "dicts bare_world r = (if r = 0 then [''ok'' \<mapsto> True, ''running'' \<mapsto> False] else Map.empty)"
  "next_dict bare_world = 1"
  "worker_done bare_world = 0"
  "alive bare_world t = False"
  "next_tid bare_world = 0"
  "timers bare_world = []"
  "reports bare_world = []"
  "areas bare_world = [ [''PREFERENCES'', ''VIEW_3D'']]"
  "redraws bare_world = 0"
  by (simp_all add: bare_world_def)

lemma installed_world_simps:
  "platform (installed_world out rc) = Posix"
  "addon_dir (installed_world out rc) = ''addon''"
  "files (installed_world out rc) p =
     (if p = ''addon/steamcmd/steamcmd.exe'' then File [] else Absent)"
  "write_error (installed_world out rc) p = None"
  "popen (installed_world out rc) cmd cwd = Runs out rc"
  "getenv (installed_world out rc) k = None"
  "printed (installed_world out rc) = []"
  "steam_username (installed_world out rc) = ''user''"
  "steam_password (installed_world out rc) = ''secret''"
  "steamid64 (installed_world out rc) = []"
  "status_lines (installed_world out rc) = [''line of an earlier job'']"
  "dicts (installed_world out rc) r =
     (if r = 0 then [''ok'' \<mapsto> True, ''running'' \<mapsto> False] else Map.empty)"
  "next_dict (installed_world out rc) = 1"
  "worker_done (installed_world out rc) = 0"
  "alive (installed_world out rc) t = False"
  "next_tid (installed_world out rc) = 0"
  "timers (installed_world out rc) = []"
  "reports (installed_world out rc) = []"
  "areas (installed_world out rc) = [ [''PREFERENCES'', ''VIEW_3D'']]"
  "redraws (installed_world out rc) = 0"
  by (simp_all add: installed_world_def bare_world_simps bundled_steamcmd_path_def
        path_join_def)

lemmas path_defs = bundled_steamcmd_path_def steamcmd_dir_def steamid64_txt_path_def
  path_join_def path_exists_def

section \<open>Supporting lemmas\<close>

lemma py_in_iff: "py_in sub s \<longleftrightarrow> (\<exists>ps ss. s = ps @ sub @ ss)"
proof (induction s)
  case Nil
  then show ?case by simp
next
  case (Cons c cs)
  show ?case
  proof
    assume "py_in sub (c # cs)"
    then consider "prefix sub (c # cs)" | "py_in sub cs" by auto
    then show "\<exists>ps ss. c # cs = ps @ sub @ ss"
    proof cases
      case 1
      then obtain ss where "c # cs = sub @ ss" by (auto simp: prefix_def)
      then have "c # cs = [] @ sub @ ss" by simp
      then show ?thesis by blast
    next
      case 2
      with Cons.IH obtain ps ss where "cs = ps @ sub @ ss" by blast
      then have "c # cs = (c # ps) @ sub @ ss" by simp
      then show ?thesis by blast
    qed
  next
    assume "\<exists>ps ss. c # cs = ps @ sub @ ss"
    then obtain ps ss where e: "c # cs = ps @ sub @ ss" by blast
    show "py_in sub (c # cs)"
    proof (cases ps)
      case Nil
      with e have "prefix sub (c # cs)" by (metis append_Nil prefixI)
      then show ?thesis by simp
    next
      case (Cons p ps')
      with e have "cs = ps' @ sub @ ss" by simp
      with Cons.IH show ?thesis by auto
    qed
  qed
qed

lemma rstrip_decomp: "s = rstrip s @ rev (takeWhile py_isspace (rev s))"
proof -
  have "rev s = takeWhile py_isspace (rev s) @ dropWhile py_isspace (rev s)" by simp
  then have "rev (rev s) = rev (takeWhile py_isspace (rev s) @ dropWhile py_isspace (rev s))"
    by (rule arg_cong)
  then show ?thesis unfolding rstrip_def rev_append rev_rev_ident .
qed

lemma rstrip_keeps:
  assumes "sub \<noteq> []" and "\<not> py_isspace (last sub)"
  shows "\<exists>t. rstrip (ps @ sub @ ss) = ps @ sub @ t"
proof -
  obtain x r where xr: "rev sub = x # r" and nx: "\<not> py_isspace x"
    using assms by (cases "rev sub") (auto simp: last_rev hd_rev)
  have "rev (ps @ sub @ ss) = (rev ss @ rev sub) @ rev ps" by simp
  moreover have "x \<in> set (rev ss @ rev sub)" using xr by simp
  ultimately have "dropWhile py_isspace (rev (ps @ sub @ ss)) = dropWhile py_isspace (rev ss @ rev sub) @ rev ps"
    using nx dropWhile_append1 [of x "rev ss @ rev sub" py_isspace "rev ps"] by simp
  moreover have "\<exists>u. dropWhile py_isspace (rev ss @ rev sub) = u @ rev sub"
    using xr nx by (auto simp: dropWhile_append)
  ultimately obtain u where "dropWhile py_isspace (rev (ps @ sub @ ss)) = u @ rev sub @ rev ps" by auto
  then have "rstrip (ps @ sub @ ss) = ps @ sub @ rev u" by (simp add: rstrip_def)
  then show ?thesis by blast
qed

lemma py_in_rstrip:
  assumes "sub \<noteq> []" and "\<not> py_isspace (last sub)"
  shows "py_in sub (rstrip s) = py_in sub s"
proof
  assume "py_in sub (rstrip s)"
  then obtain ps ss where "rstrip s = ps @ sub @ ss" by (auto simp: py_in_iff)
  then have "s = ps @ sub @ (ss @ rev (takeWhile py_isspace (rev s)))"
    using rstrip_decomp [of s] by simp
  then show "py_in sub s" unfolding py_in_iff by blast
next
  assume "py_in sub s"
  then obtain ps ss where s: "s = ps @ sub @ ss" by (auto simp: py_in_iff)
  from rstrip_keeps [OF assms, of ps ss] s show "py_in sub (rstrip s)"
    unfolding py_in_iff by blast
qed

lemma marker_rstrip:
  "py_in ''Logged in OK'' (rstrip s) = py_in ''Logged in OK'' s"
  "py_in ''Waiting for user info...OK'' (rstrip s) = py_in ''Waiting for user info...OK'' s"
  by (rule py_in_rstrip; simp add: py_isspace_def)+

text \<open>The three components of the login loop, each on its own.\<close>

lemma login_scan_buf: "fst (login_scan out (buf, ok, c)) = build_scan out buf"
  by (induction out arbitrary: buf ok c) (simp_all add: Let_def)

lemma login_scan_ok:
  "fst (snd (login_scan out (buf, ok, c))) \<longleftrightarrow>
     ok \<or> (\<exists>l\<in>set out. py_in ''Logged in OK'' l \<or> py_in ''Waiting for user info...OK'' l)"
  by (induction out arbitrary: buf ok c) (auto simp: Let_def marker_rstrip)

lemma login_scan_cand: "snd (snd (login_scan out (buf, ok, c))) = last_candidate out c"
  by (induction out arbitrary: buf ok c) (simp_all add: Let_def)

lemma dicts_write_steamid64 [simp]: "dicts (write_steamid64_to_file x w) = dicts w"
  by (simp add: write_steamid64_to_file_def write_text_def split: option.splits)

lemma dicts_dict_set: "dicts (dict_set r k v w) r k = Some v"
  by (simp add: dict_set_def)

lemma last_candidate_append:
  "last_candidate (xs @ ys) c = last_candidate ys (last_candidate xs c)"
  by (induction xs arbitrary: c) simp_all

lemma last_candidate_none:
  "\<forall>l\<in>set ys. re_search_id (rstrip l) = None \<Longrightarrow> last_candidate ys c = c"
  by (induction ys arbitrary: c) simp_all

lemma tail_limit_pos: "0 < tail_limit"
  by (simp add: tail_limit_def)

lemma keep_tail_drop:
  assumes "length buf \<le> tail_limit"
  shows "keep_tail buf line = drop (length (buf @ [line]) - tail_limit) (buf @ [line])"
proof (cases "length buf = tail_limit")
  case True
  then have ne: "buf \<noteq> []" using tail_limit_pos by auto
  from True have "length (buf @ [line]) - tail_limit = Suc 0" by simp
  moreover have "drop (Suc 0) (buf @ [line]) = tl (buf @ [line])" by (simp only: drop_Suc drop_0)
  ultimately show ?thesis using True by (simp add: keep_tail_def Let_def)
next
  case False
  with assms show ?thesis by (simp add: keep_tail_def Let_def)
qed

lemma keep_tail_length: "length buf \<le> tail_limit \<Longrightarrow> length (keep_tail buf line) \<le> tail_limit"
  by (auto simp: keep_tail_def Let_def)

lemma drop_drop_append:
  "k \<le> length X \<Longrightarrow> drop a (drop k X @ R) = drop (a + k) (X @ R)"
  by simp

lemma build_scan_tail:
  "length buf \<le> tail_limit \<Longrightarrow>
   build_scan out buf = drop (length buf + length out - tail_limit) (buf @ map rstrip out)"
proof (induction out arbitrary: buf)
  case Nil
  then show ?case by simp
next
  case (Cons raw rest)
  define X where "X = buf @ [rstrip raw]"
  define k where "k = length X - tail_limit"
  have kt: "keep_tail buf (rstrip raw) = drop k X"
    unfolding k_def X_def using Cons.prems by (rule keep_tail_drop)
  have len: "length (keep_tail buf (rstrip raw)) \<le> tail_limit"
    using Cons.prems by (rule keep_tail_length)
  have k: "k \<le> length X" by (simp add: k_def)
  have lenX: "length X = Suc (length buf)" by (simp add: X_def)
  have "build_scan (raw # rest) buf = build_scan rest (keep_tail buf (rstrip raw))" by simp
  also have "\<dots> = drop (length (drop k X) + length rest - tail_limit)
                      (drop k X @ map rstrip rest)"
    using Cons.IH [OF len] unfolding kt .
  also have "\<dots> = drop (length (drop k X) + length rest - tail_limit + k) (X @ map rstrip rest)"
    using k by (rule drop_drop_append)
  also have "length (drop k X) + length rest - tail_limit + k
               = length buf + length (raw # rest) - tail_limit"
    using Cons.prems lenX by (auto simp: k_def)
  also have "X @ map rstrip rest = buf @ map rstrip (raw # rest)" by (simp add: X_def)
  finally show ?case .
qed

lemma build_scan_length:
  "length buf \<le> tail_limit \<Longrightarrow> length (build_scan out buf) \<le> tail_limit"
  by (induction out arbitrary: buf) (simp_all add: keep_tail_length)

lemma status_lines_dict_set [simp]: "status_lines (dict_set r k v w) = status_lines w"
  by (simp add: dict_set_def)

lemma status_lines_write_steamid64 [simp]:
  "status_lines (write_steamid64_to_file x w) = status_lines w"
  by (simp add: write_steamid64_to_file_def write_text_def split: option.splits)

lemma status_lines_tag_redraws [simp]: "status_lines (tag_redraws w) = status_lines w"
  by (simp add: tag_redraws_def)

lemma run_status_lines:
  "status_lines (SteamCmdWorker_run self w) =
     (if \<not> path_exists w (bundled_steamcmd_path w)
      then status_lines w @ [''steamcmd not found: '' @ bundled_steamcmd_path w]
      else case popen w [bundled_steamcmd_path w, ''+login'', lw_username self,
                         lw_password self, ''+quit''] (steamcmd_dir w) of
             Start_fails e \<Rightarrow> status_lines w @ [''Failed to start steamcmd: '' @ e]
           | Runs out rc \<Rightarrow> build_scan out (status_lines w))"
proof (cases "path_exists w (bundled_steamcmd_path w)")
  case False
  then show ?thesis by (simp add: SteamCmdWorker_run_def append_status_def)
next
  case True
  show ?thesis
  proof (cases "popen w [bundled_steamcmd_path w, ''+login'', lw_username self,
                         lw_password self, ''+quit''] (steamcmd_dir w)")
    case (Start_fails e)
    with True show ?thesis by (simp add: SteamCmdWorker_run_def append_status_def)
  next
    case (Runs out rc)
    obtain buf ok c where sc: "login_scan out (status_lines w, False, None) = (buf, ok, c)"
      by (cases "login_scan out (status_lines w, False, None)") auto
    from login_scan_buf [of out "status_lines w" False None] sc
    have "buf = build_scan out (status_lines w)" by simp
    with True Runs sc show ?thesis by (simp add: SteamCmdWorker_run_def Let_def)
  qed
qed

lemma build_run_status_lines:
  "status_lines (SteamCmdBuildWorker_run self w) =
     (if \<not> path_exists w (bundled_steamcmd_path w)
      then status_lines w @ [''steamcmd not found: '' @ bundled_steamcmd_path w]
      else case popen w (bw_cmd_args self) (steamcmd_dir w) of
             Start_fails e \<Rightarrow> status_lines w @ [''Failed to start steamcmd: '' @ e]
           | Runs out rc \<Rightarrow> build_scan out (status_lines w))"
  by (simp add: SteamCmdBuildWorker_run_def Let_def append_status_def split: proc_outcome.splits)

lemma login_execute_eq:
  "WRSR_OT_LoginSteamCmd_execute w =
     (FINISHED,
      \<lparr>lw_username = steam_username w, lw_password = steam_password w,
       lw_cmd_args = [bundled_steamcmd_path w, ''+login'', steam_username w,
                      steam_password w, ''+quit''],
       lw_done_flag = next_dict w, lw_tid = next_tid w\<rparr>,
      w\<lparr>status_lines := [],
        dicts := (dicts w)(next_dict w := [''ok'' \<mapsto> False, ''running'' \<mapsto> True]),
        worker_done := next_dict w, next_dict := Suc (next_dict w),
        next_tid := Suc (next_tid w), alive := (alive w)(next_tid w := True),
        timers := timers w @
          [Check_done \<lparr>lw_username = steam_username w, lw_password = steam_password w,
             lw_cmd_args = [bundled_steamcmd_path w, ''+login'', steam_username w,
                            steam_password w, ''+quit''],
             lw_done_flag = next_dict w, lw_tid = next_tid w\<rparr>]\<rparr>)"
  by (simp add: WRSR_OT_LoginSteamCmd_execute_def Let_def reset_worker_done_def
        thread_start_def bundled_steamcmd_path_def)

lemma check_done_status_length:
  "length (status_lines (snd (check_done worker w))) \<le> Suc (length (status_lines w))"
  by (simp add: check_done_def Let_def append_status_def)

lemma login_job_run_status:
  "status_lines (login_job_run w) =
     (if \<not> path_exists w (bundled_steamcmd_path w)
      then [''steamcmd not found: '' @ bundled_steamcmd_path w]
      else case popen w [bundled_steamcmd_path w, ''+login'', steam_username w,
                         steam_password w, ''+quit''] (steamcmd_dir w) of
             Start_fails e \<Rightarrow> [''Failed to start steamcmd: '' @ e]
           | Runs out rc \<Rightarrow> drop (length out - tail_limit) (map rstrip out))"
  by (simp add: login_job_run_def login_execute_eq login_thread_body_def Let_def
        run_status_lines path_defs build_scan_tail split: proc_outcome.splits)

lemma login_job_eq:
  "login_job w =
     snd (check_done
            \<lparr>lw_username = steam_username w, lw_password = steam_password w,
             lw_cmd_args = [bundled_steamcmd_path w, ''+login'', steam_username w,
                            steam_password w, ''+quit''],
             lw_done_flag = next_dict w, lw_tid = next_tid w\<rparr>
            (login_job_run w))"
  by (simp add: login_job_def login_job_run_def login_execute_eq)

lemma login_job_run_length: "length (status_lines (login_job_run w)) \<le> tail_limit"
  using tail_limit_pos
  by (auto simp: login_job_run_status split: proc_outcome.splits)

lemma login_job_length: "length (status_lines (login_job w)) \<le> Suc tail_limit"
  unfolding login_job_eq
  using check_done_status_length login_job_run_length le_trans Suc_le_mono by blast

lemma status_lines_check [simp]: "status_lines (snd (check worker w)) = status_lines w"
  by (simp add: check_def Let_def dict_set_def build_worker_getattr_def thread_public_names_def)

lemma build_run_length:
  "status_lines w = [] \<Longrightarrow> length (status_lines (SteamCmdBuildWorker_run self w)) \<le> tail_limit"
  using tail_limit_pos
  by (auto simp: build_run_status_lines build_scan_length split: proc_outcome.splits)

lemma build_execute_status:
  "status_lines (snd (WRSR_OT_CreateNewItem_execute w)) = []"
  by (auto simp: WRSR_OT_CreateNewItem_execute_def Let_def reset_worker_done_def
        write_text_def thread_start_def split: option.splits)

lemma build_job_length: "length (status_lines (snd (build_job w))) \<le> tail_limit"
proof (cases "WRSR_OT_CreateNewItem_execute w")
  case (Pair res w1)
  have w1: "status_lines w1 = []"
    using build_execute_status [of w] Pair by simp
  show ?thesis
  proof (cases res)
    case (Inl e)
    with Pair w1 show ?thesis by (simp add: build_job_def)
  next
    case (Inr rw)
    obtain r worker where rw: "rw = (r, worker)" by (cases rw)
    from build_run_length [OF w1, of worker] Pair Inr rw show ?thesis
      by (simp add: build_job_def build_thread_body_def Let_def)
  qed
qed

lemma login_scan_eq:
  "login_scan out (buf, False, None) = (build_scan out buf, has_marker out, last_candidate out None)"
  using login_scan_buf [of out buf False None] login_scan_ok [of out buf False None]
    login_scan_cand [of out buf False None]
  by (cases "login_scan out (buf, False, None)") (simp add: has_marker_def)

lemma run_missing:
  "\<not> path_exists w (bundled_steamcmd_path w) \<Longrightarrow>
   SteamCmdWorker_run self w =
     dict_set (lw_done_flag self) ''ok'' False
       (append_status (''steamcmd not found: '' @ bundled_steamcmd_path w) w)"
  by (simp add: SteamCmdWorker_run_def)

lemma run_start_fails:
  "path_exists w (bundled_steamcmd_path w) \<Longrightarrow>
   popen w [bundled_steamcmd_path w, ''+login'', lw_username self, lw_password self, ''+quit'']
     (steamcmd_dir w) = Start_fails e \<Longrightarrow>
   SteamCmdWorker_run self w =
     dict_set (lw_done_flag self) ''ok'' False
       (append_status (''Failed to start steamcmd: '' @ e) w)"
  by (simp add: SteamCmdWorker_run_def)

lemma run_runs:
  "path_exists w (bundled_steamcmd_path w) \<Longrightarrow>
   popen w [bundled_steamcmd_path w, ''+login'', lw_username self, lw_password self, ''+quit'']
     (steamcmd_dir w) = Runs out rc \<Longrightarrow>
   SteamCmdWorker_run self w =
     (let w2 = dict_set (lw_done_flag self) ''ok'' (has_marker out \<and> rc = 0)
                 (w\<lparr>status_lines := build_scan out (status_lines w)\<rparr>)
      in if truthy_str (last_candidate out None)
         then (write_steamid64_to_file (the (last_candidate out None)) w2)
                \<lparr>steamid64 := the (last_candidate out None)\<rparr>
         else w2)"
  by (simp add: SteamCmdWorker_run_def login_scan_eq Let_def)

text \<open>What the login worker leaves untouched.\<close>

lemma write_steamid64_frame [simp]:
  "alive (write_steamid64_to_file x w) = alive w"
  "worker_done (write_steamid64_to_file x w) = worker_done w"
  "next_dict (write_steamid64_to_file x w) = next_dict w"
  "next_tid (write_steamid64_to_file x w) = next_tid w"
  "steamid64 (write_steamid64_to_file x w) = steamid64 w"
  "reports (write_steamid64_to_file x w) = reports w"
  "timers (write_steamid64_to_file x w) = timers w"
  "platform (write_steamid64_to_file x w) = platform w"
  "addon_dir (write_steamid64_to_file x w) = addon_dir w"
  "areas (write_steamid64_to_file x w) = areas w"
  "redraws (write_steamid64_to_file x w) = redraws w"
  by (simp_all add: write_steamid64_to_file_def write_text_def split: option.splits)

lemma run_frame:
  "alive (SteamCmdWorker_run self w) = alive w"
  "worker_done (SteamCmdWorker_run self w) = worker_done w"
  "next_dict (SteamCmdWorker_run self w) = next_dict w"
  "next_tid (SteamCmdWorker_run self w) = next_tid w"
  "reports (SteamCmdWorker_run self w) = reports w"
  "timers (SteamCmdWorker_run self w) = timers w"
  "platform (SteamCmdWorker_run self w) = platform w"
  "addon_dir (SteamCmdWorker_run self w) = addon_dir w"
  by (simp_all add: SteamCmdWorker_run_def Let_def dict_set_def append_status_def
        split: proc_outcome.splits prod.splits)

lemma run_dicts:
  "\<exists>b. dicts (SteamCmdWorker_run self w) =
         (dicts w)(lw_done_flag self := (dicts w (lw_done_flag self))(''ok'' \<mapsto> b))"
  by (auto simp: SteamCmdWorker_run_def Let_def dict_set_def append_status_def
        split: proc_outcome.splits prod.splits)

lemma login_worker_of_simps:
  "lw_username (login_worker_of w) = steam_username w"
  "lw_password (login_worker_of w) = steam_password w"
  "lw_done_flag (login_worker_of w) = next_dict w"
  "lw_tid (login_worker_of w) = next_tid w"
  by (simp_all add: login_worker_of_def login_execute_eq)

lemma login_started_simps:
  "status_lines (login_started w) = []"
  "dicts (login_started w) = (dicts w)(next_dict w := [''ok'' \<mapsto> False, ''running'' \<mapsto> True])"
  "worker_done (login_started w) = next_dict w"
  "next_dict (login_started w) = Suc (next_dict w)"
  "next_tid (login_started w) = Suc (next_tid w)"
  "alive (login_started w) = (alive w)(next_tid w := True)"
  "timers (login_started w) = timers w @ [Check_done (login_worker_of w)]"
  "files (login_started w) = files w"
  "popen (login_started w) = popen w"
  "platform (login_started w) = platform w"
  "addon_dir (login_started w) = addon_dir w"
  "write_error (login_started w) = write_error w"
  "steamid64 (login_started w) = steamid64 w"
  "printed (login_started w) = printed w"
  "reports (login_started w) = reports w"
  "areas (login_started w) = areas w"
  "redraws (login_started w) = redraws w"
  by (simp_all add: login_started_def login_worker_of_def login_execute_eq)

lemma login_started_paths [simp]:
  "bundled_steamcmd_path (login_started w) = bundled_steamcmd_path w"
  "steamcmd_dir (login_started w) = steamcmd_dir w"
  "steamid64_txt_path (login_started w) = steamid64_txt_path w"
  "path_exists (login_started w) = path_exists w"
  by (simp_all add: path_defs login_started_simps fun_eq_iff)

lemma login_execute_split:
  "WRSR_OT_LoginSteamCmd_execute w = (FINISHED, login_worker_of w, login_started w)"
  by (simp add: login_worker_of_def login_started_def login_execute_eq)

lemma login_job_run_alt:
  "login_job_run w = login_thread_body (login_worker_of w) (login_started w)"
  by (simp add: login_job_run_def login_execute_split)

lemma login_job_alt:
  "login_job w = snd (check_done (login_worker_of w) (login_job_run w))"
  by (simp add: login_job_def login_job_run_def login_execute_split)

lemma login_job_run_flags:
  "worker_done (login_job_run w) = next_dict w"
  "alive (login_job_run w) (next_tid w) = False"
  "dicts (login_job_run w) (next_dict w) ''running'' = Some True"
  using run_dicts [of "login_worker_of w" "login_started w"]
  by (auto simp: login_job_run_alt login_thread_body_def Let_def run_frame
      login_started_simps login_worker_of_simps)

lemma login_job_status:
  "status_lines (login_job w) =
     status_lines (login_job_run w) @
       (if dict_get (dicts (login_job_run w) (next_dict w)) ''ok'' then []
        else [''Login did not complete successfully.''])"
  by (simp add: login_job_alt check_done_def Let_def login_job_run_flags login_worker_of_simps
      dict_get_def dict_set_def append_status_def)

lemma login_job_run_ok:
  "dicts (login_job_run w) (next_dict w) ''ok'' =
     dicts (SteamCmdWorker_run (login_worker_of w) (login_started w)) (next_dict w) ''ok''"
  by (simp add: login_job_run_alt login_thread_body_def Let_def)

lemma dict_set_frame [simp]:
  "files (dict_set r k v w) = files w"
  "steamid64 (dict_set r k v w) = steamid64 w"
  "platform (dict_set r k v w) = platform w"
  "addon_dir (dict_set r k v w) = addon_dir w"
  "worker_done (dict_set r k v w) = worker_done w"
  "reports (dict_set r k v w) = reports w"
  "alive (dict_set r k v w) = alive w"
  by (simp_all add: dict_set_def)

lemma read_steamid64_dict_set [simp]:
  "read_steamid64_from_file (dict_set r k v w) = read_steamid64_from_file w"
  by (simp add: read_steamid64_from_file_def read_text_def path_defs)

lemma steamid64_tag_redraws [simp]: "steamid64 (tag_redraws w) = steamid64 w"
  by (simp add: tag_redraws_def)

lemma new_item_id_undefined:
  "build_worker_getattr worker ''new_item_id'' = Inl (AttributeError ''new_item_id'')"
  by (simp add: build_worker_getattr_def thread_public_names_def)

lemma build_poller_raises:
  assumes "dict_get (dicts w (worker_done w)) ''running''"
    and "\<not> alive w (bw_tid worker)"
  shows "build_worker_getattr worker ''new_item_id'' = Inl (AttributeError ''new_item_id'') \<and>
         check worker w =
           (Inl (AttributeError ''new_item_id''), dict_set (worker_done w) ''running'' False w) \<and>
         reports (snd (check worker w)) = reports w"
  using assms by (simp add: check_def Let_def new_item_id_undefined)

lemma build_execute_ok:
  assumes "write_error w (path_join (platform w) (addon_dir w) ''workshop.vdf'') = None"
  shows "WRSR_OT_CreateNewItem_execute w =
     (Inr (FINISHED, build_worker_of w),
      w\<lparr>status_lines := [],
        dicts := (dicts w)(next_dict w := [''ok'' \<mapsto> False, ''running'' \<mapsto> True]),
        worker_done := next_dict w, next_dict := Suc (next_dict w),
        files := (files w)(path_join (platform w) (addon_dir w) ''workshop.vdf'' :=
                    File (text_out (platform w) vdf_text)),
        next_tid := Suc (next_tid w), alive := (alive w)(next_tid w := True),
        timers := timers w @ [Check (build_worker_of w)]\<rparr>)"
  using assms
  by (simp add: WRSR_OT_CreateNewItem_execute_def Let_def reset_worker_done_def write_text_def
      thread_start_def build_worker_of_def bundled_steamcmd_path_def)


lemma build_run_frame:
  "alive (SteamCmdBuildWorker_run self w) = alive w"
  "worker_done (SteamCmdBuildWorker_run self w) = worker_done w"
  "reports (SteamCmdBuildWorker_run self w) = reports w"
  by (simp_all add: SteamCmdBuildWorker_run_def Let_def dict_set_def append_status_def
        split: proc_outcome.splits)

lemma build_run_dicts:
  "\<exists>b. dicts (SteamCmdBuildWorker_run self w) =
         (dicts w)(bw_done_flag self := (dicts w (bw_done_flag self))(''ok'' \<mapsto> b))"
  by (auto simp: SteamCmdBuildWorker_run_def Let_def dict_set_def append_status_def
        split: proc_outcome.splits)

lemma build_job_raises:
  assumes "write_error w (path_join (platform w) (addon_dir w) ''workshop.vdf'') = None"
  shows "fst (build_job w) = Inl (AttributeError ''new_item_id'') \<and>
         reports (snd (build_job w)) = reports w"
proof -
  let ?wk = "build_worker_of w"
  obtain w1 where ex: "WRSR_OT_CreateNewItem_execute w = (Inr (FINISHED, ?wk), w1)"
    and w1: "worker_done w1 = next_dict w" "dicts w1 (next_dict w) ''running'' = Some True"
            "reports w1 = reports w"
    using build_execute_ok [OF assms] by simp
  let ?w2 = "build_thread_body ?wk w1"
  have r: "dict_get (dicts ?w2 (worker_done ?w2)) ''running''"
    using build_run_dicts [of ?wk w1] w1
    by (auto simp: build_thread_body_def Let_def build_run_frame dict_get_def
        build_worker_of_def)
  have a: "\<not> alive ?w2 (bw_tid ?wk)"
    by (simp add: build_thread_body_def Let_def)
  have rep: "reports ?w2 = reports w"
    using w1 by (simp add: build_thread_body_def Let_def build_run_frame)
  from r a have "check ?wk ?w2 =
      (Inl (AttributeError ''new_item_id''), dict_set (worker_done ?w2) ''running'' False ?w2)"
    by (simp add: check_def Let_def new_item_id_undefined)
  with ex rep show ?thesis by (simp add: build_job_def)
qed

lemma run_ok:
  "dicts (SteamCmdWorker_run self w) (lw_done_flag self) ''ok'' =
     Some (path_exists w (bundled_steamcmd_path w) \<and>
       (case popen w [bundled_steamcmd_path w, ''+login'', lw_username self, lw_password self,
                      ''+quit''] (steamcmd_dir w) of
          Start_fails e \<Rightarrow> False
        | Runs out returncode \<Rightarrow> has_marker out \<and> returncode = 0))"
proof (cases "path_exists w (bundled_steamcmd_path w)")
  case False
  then show ?thesis by (simp add: run_missing dicts_dict_set)
next
  case True
  show ?thesis
  proof (cases "popen w [bundled_steamcmd_path w, ''+login'', lw_username self, lw_password self,
                      ''+quit''] (steamcmd_dir w)")
    case (Start_fails e)
    with True show ?thesis by (simp add: run_start_fails dicts_dict_set)
  next
    case (Runs out rc)
    with True show ?thesis by (simp add: run_runs Let_def dicts_dict_set)
  qed
qed

lemma login_job_run_ok_value:
  "dicts (login_job_run w) (next_dict w) ''ok'' =
     Some (path_exists w (bundled_steamcmd_path w) \<and>
       (case popen w [bundled_steamcmd_path w, ''+login'', steam_username w, steam_password w,
                      ''+quit''] (steamcmd_dir w) of
          Start_fails e \<Rightarrow> False
        | Runs out returncode \<Rightarrow> has_marker out \<and> returncode = 0))"
  using run_ok [of "login_worker_of w" "login_started w"]
  by (simp add: login_job_run_ok login_worker_of_simps login_started_simps)

lemma many_lines_overflow:
  "length (status_lines (login_job (installed_world (replicate 50 ''x'') 0))) = 51"
proof -
  let ?w = "installed_world (replicate 50 ''x'') 0"
  have m: "\<not> has_marker (replicate 50 ''x'')"
    by (simp add: has_marker_def)
  have run: "dicts (login_job_run ?w) (next_dict ?w) ''ok'' = Some False"
    using m login_job_run_ok_value [of ?w] by (simp add: installed_world_simps path_defs)
  have "length (status_lines (login_job_run ?w)) = 50"
    by (simp add: login_job_run_status path_defs installed_world_simps tail_limit_def)
  with run show ?thesis by (simp add: login_job_status dict_get_def)
qed

lemma universal_newlines_text_out:
  "CR \<notin> set s \<Longrightarrow> universal_newlines False (text_out pl s) = s"
proof (induction s)
  case Nil
  then show ?case by (simp add: text_out_def)
next
  case (Cons c cs)
  then have ih: "universal_newlines False (text_out pl cs) = cs" and c: "c \<noteq> CR" by auto
  show ?case
  proof (cases "c = LF")
    case True
    with ih show ?thesis by (cases pl) (simp_all add: text_out_def)
  next
    case False
    with c ih show ?thesis by (simp add: text_out_def)
  qed
qed

lemma rstrip_last: "rstrip s \<noteq> [] \<Longrightarrow> \<not> py_isspace (last (rstrip s))"
  unfolding rstrip_def using hd_dropWhile [of py_isspace "rev s"]
  by (simp add: last_rev)

lemma rstrip_id: "s \<noteq> [] \<Longrightarrow> \<not> py_isspace (last s) \<Longrightarrow> rstrip s = s"
  unfolding rstrip_def by (cases "rev s") (auto simp: last_rev hd_rev)

lemma lstrip_id: "s \<noteq> [] \<Longrightarrow> \<not> py_isspace (hd s) \<Longrightarrow> lstrip s = s"
  unfolding lstrip_def by (cases s) auto

lemma lstrip_hd: "lstrip s \<noteq> [] \<Longrightarrow> \<not> py_isspace (hd (lstrip s))"
  unfolding lstrip_def using hd_dropWhile [of py_isspace s] by simp

lemma rstrip_hd: "rstrip s \<noteq> [] \<Longrightarrow> hd (rstrip s) = hd s"
  using rstrip_decomp [of s] by (metis hd_append2)

lemma strip_ends:
  assumes "strip s \<noteq> []"
  shows "\<not> py_isspace (hd (strip s))" and "\<not> py_isspace (last (strip s))"
proof -
  from assms have ne: "lstrip s \<noteq> []" by (auto simp: strip_def rstrip_def)
  from assms show "\<not> py_isspace (last (strip s))" unfolding strip_def by (rule rstrip_last)
  from assms have "hd (strip s) = hd (lstrip s)" unfolding strip_def by (rule rstrip_hd)
  with lstrip_hd [OF ne] show "\<not> py_isspace (hd (strip s))" by simp
qed

lemma LF_space: "py_isspace LF"
  by (simp add: py_isspace_def)

lemma strip_strip_newline: "strip (strip x @ [LF]) = strip x"
proof (cases "strip x = []")
  case True
  have "strip [LF] = []" by (simp add: strip_def lstrip_def rstrip_def LF_space)
  with True show ?thesis by simp
next
  case False
  let ?t = "strip x"
  from strip_ends [OF False] have h: "\<not> py_isspace (hd ?t)" and l: "\<not> py_isspace (last ?t)"
    by auto
  have "lstrip (?t @ [LF]) = ?t @ [LF]"
    using False h by (intro lstrip_id) auto
  moreover have "rstrip (?t @ [LF]) = rstrip ?t"
    by (simp add: rstrip_def LF_space)
  moreover have "rstrip ?t = ?t" using False l by (rule rstrip_id)
  ultimately show ?thesis by (simp add: strip_def [of "strip x @ [LF]"])
qed

lemma write_steamid64_ok:
  "write_error w (steamid64_txt_path w) = None \<Longrightarrow>
   write_steamid64_to_file x w =
     w\<lparr>files := (files w)(steamid64_txt_path w := File (text_out (platform w) (strip x @ [LF])))\<rparr>"
  by (simp add: write_steamid64_to_file_def write_text_def)

lemma read_after_write:
  assumes "files w (steamid64_txt_path w) = File (text_out (platform w) (strip x @ [LF]))"
    and "CR \<notin> set (strip x)"
  shows "read_steamid64_from_file w = strip x"
proof -
  have "CR \<notin> set (strip x @ [LF])" using assms(2) by simp
  then have "universal_newlines False (text_out (platform w) (strip x @ [LF])) = strip x @ [LF]"
    by (rule universal_newlines_text_out)
  with assms(1) show ?thesis
    by (simp add: read_steamid64_from_file_def read_text_def path_exists_def strip_strip_newline)
qed

lemma last_candidate_last:
  assumes "re_search_id (rstrip line) = Some m"
    and "\<forall>l\<in>set post. re_search_id (rstrip l) = None"
  shows "last_candidate (pre @ line # post) c = Some m"
  using assms by (simp add: last_candidate_append last_candidate_none)

lemma accepted_line_id:
  "re_search_id (rstrip ''Accepted login for 76561198012345678'') = Some ''76561198012345678''"
  by (simp add: rstrip_def py_isspace_def re_search_id_def id_match_at_def re_word_def re_digit_def)

lemma other_line_id:
  "re_search_id (rstrip ''Accepted login for 76561198087654321'') = Some ''76561198087654321''"
  by (simp add: rstrip_def py_isspace_def re_search_id_def id_match_at_def re_word_def re_digit_def)

text \<open>What a login job does with the identifier it ends with.\<close>

lemma strip_id: "s \<noteq> [] \<Longrightarrow> \<not> py_isspace (hd s) \<Longrightarrow> \<not> py_isspace (last s) \<Longrightarrow> strip s = s"
  by (simp add: strip_def lstrip_id rstrip_id)



lemma findall_length: "m \<in> set (re_findall_from prev s) \<Longrightarrow> length m = 17"
proof (induction prev s rule: re_findall_from.induct)
  case (1 prev)
  then show ?case by simp
next
  case (2 prev c cs)
  show ?case
  proof (cases "id_match_at prev (c # cs)")
    case True
    then have "17 \<le> length (c # cs)" by (simp add: id_match_at_def)
    then have "length (take 17 (c # cs)) = 17" by simp
    with 2 True show ?thesis by auto
  next
    case False
    with 2 show ?thesis by auto
  qed
qed

lemma findall_first_is_search:
  "re_search_from prev s = (case re_findall_from prev s of [] \<Rightarrow> None | m # ms \<Rightarrow> Some m)"
  by (induction prev s rule: re_findall_from.induct) simp_all

lemma candidate_ids_printed [simp]:
  "candidate_ids (w\<lparr>printed := p\<rparr>) c = candidate_ids w c"
  by (simp add: candidate_ids_def path_exists_def read_text_def)

lemma detect_scan_step:
  "detect_scan (vdf # rest) w =
     (case candidate_ids w vdf of
        m0 # ms \<Rightarrow> (Some m0, w)
      | [] \<Rightarrow>
         detect_scan rest
           (if path_exists w vdf then
              (case read_text vdf w of
                 Inl e \<Rightarrow> w\<lparr>printed := printed w @
                    [''[wrsr_workshop_io] Could not read '' @ vdf @ '': '' @ error_text e]\<rparr>
               | Inr txt \<Rightarrow> w)
            else w))"
  by (simp add: candidate_ids_def split: sum.splits list.splits)

lemma detect_scan_found:
  "fst (detect_scan cs w) =
     (case find (\<lambda>p. candidate_ids w p \<noteq> []) cs of
        None \<Rightarrow> None
      | Some p \<Rightarrow> Some (hd (candidate_ids w p)))"
proof (induction cs arbitrary: w)
  case Nil
  then show ?case by simp
next
  case (Cons vdf rest)
  show ?case
  proof (cases "candidate_ids w vdf")
    case Nil
    then show ?thesis
      unfolding detect_scan_step
      by (simp add: Cons.IH split: sum.splits cong: option.case_cong)
  next
    case (Cons m0 ms)
    then show ?thesis unfolding detect_scan_step by simp
  qed
qed

lemma detect_scan_frame:
  "files (snd (detect_scan cs w)) = files w"
  "steamid64 (snd (detect_scan cs w)) = steamid64 w"
  "reports (snd (detect_scan cs w)) = reports w"
proof (induction cs arbitrary: w)
  case Nil
  { case 1 show ?case by simp }
  { case 2 show ?case by simp }
  { case 3 show ?case by simp }
next
  case (Cons vdf rest)
  { case 1 show ?case by (simp add: Cons.IH(1) split: sum.splits list.splits) }
  { case 2 show ?case by (simp add: Cons.IH(2) split: sum.splits list.splits) }
  { case 3 show ?case by (simp add: Cons.IH(3) split: sum.splits list.splits) }
qed

lemma detect_scan_stops:
  "candidate_ids w c \<noteq> [] \<Longrightarrow> detect_scan (pre @ c # post) w = detect_scan (pre @ [c]) w"
proof (induction pre arbitrary: w)
  case Nil
  then show ?case unfolding append_Nil detect_scan_step by (simp split: list.splits)
next
  case (Cons p pre)
  show ?case
  proof (cases "candidate_ids w p")
    case Nil
    with Cons show ?thesis
      unfolding append_Cons detect_scan_step by (simp split: sum.splits)
  next
    case (Cons m0 ms)
    then show ?thesis unfolding append_Cons detect_scan_step by simp
  qed
qed

lemma path_join_nonempty: "path_join pl a b \<noteq> []"
  by (cases pl) (simp_all add: path_join_def)

lemma Path_nonempty: "Path s \<noteq> []"
  by (simp add: Path_def)

lemma path_div_nonempty: "b \<noteq> [] \<Longrightarrow> path_div pl a b \<noteq> []"
  by (simp add: path_div_def path_join_nonempty)

lemma default_steam_paths_length: "length (default_steam_paths w) = 3"
  unfolding default_steam_paths_def Let_def
  by (simp add: path_div_nonempty Path_nonempty)

lemma candidate_ids_length:
  assumes "m \<in> set (candidate_ids w p)"
  shows "length m = 17"
proof (cases "path_exists w p")
  case False
  with assms show ?thesis by (simp add: candidate_ids_def)
next
  case True
  show ?thesis
  proof (cases "read_text p w")
    case (Inl e)
    with True assms show ?thesis by (simp add: candidate_ids_def)
  next
    case (Inr body)
    with True assms have "m \<in> set (re_findall_from None body)"
      by (simp add: candidate_ids_def re_findall_id_def)
    then show ?thesis by (rule findall_length)
  qed
qed

lemma detect_execute_found:
  assumes "find (\<lambda>p. candidate_ids w p \<noteq> []) (default_steam_paths w) = Some p"
  shows "fst (WRSR_OT_DetectSteamID_execute w) = FINISHED"
    and "steamid64 (snd (WRSR_OT_DetectSteamID_execute w)) = hd (candidate_ids w p)"
    and "reports (snd (WRSR_OT_DetectSteamID_execute w)) =
           reports w @ [(INFO, ''Detected SteamID64: '' @ hd (candidate_ids w p))]"
proof -
  obtain found w1 where d: "detect_scan (default_steam_paths w) w = (found, w1)"
    by (cases "detect_scan (default_steam_paths w) w")
  from detect_scan_found [of "default_steam_paths w" w] d assms
  have f: "found = Some (hd (candidate_ids w p))" by simp
  from assms have "candidate_ids w p \<noteq> []" by (auto simp: find_Some_iff)
  then have "hd (candidate_ids w p) \<in> set (candidate_ids w p)" by simp
  then have "length (hd (candidate_ids w p)) = 17" by (rule candidate_ids_length)
  then have t: "truthy_str found" using f by auto
  have r: "reports w1 = reports w"
    using detect_scan_frame(3) [of "default_steam_paths w" w] d by simp
  show "fst (WRSR_OT_DetectSteamID_execute w) = FINISHED"
    using d t by (simp add: WRSR_OT_DetectSteamID_execute_def)
  show "steamid64 (snd (WRSR_OT_DetectSteamID_execute w)) = hd (candidate_ids w p)"
    using d t f by (simp add: WRSR_OT_DetectSteamID_execute_def report_def)
  show "reports (snd (WRSR_OT_DetectSteamID_execute w)) =
           reports w @ [(INFO, ''Detected SteamID64: '' @ hd (candidate_ids w p))]"
    using d t f r by (simp add: WRSR_OT_DetectSteamID_execute_def report_def)
qed

lemma detect_execute_none:
  assumes "find (\<lambda>p. candidate_ids w p \<noteq> []) (default_steam_paths w) = None"
  shows "fst (WRSR_OT_DetectSteamID_execute w) = CANCELLED"
    and "steamid64 (snd (WRSR_OT_DetectSteamID_execute w)) = steamid64 w"
    and "files (snd (WRSR_OT_DetectSteamID_execute w)) = files w"
    and "reports (snd (WRSR_OT_DetectSteamID_execute w)) =
           reports w @ [(WARNING,
             ''Could not detect SteamID64 automatically. Please enter it manually.'')]"
proof -
  obtain found w1 where d: "detect_scan (default_steam_paths w) w = (found, w1)"
    by (cases "detect_scan (default_steam_paths w) w")
  from detect_scan_found [of "default_steam_paths w" w] d assms
  have f: "found = None" by simp
  have r: "reports w1 = reports w" "files w1 = files w" "steamid64 w1 = steamid64 w"
    using detect_scan_frame [of "default_steam_paths w" w] d by simp_all
  show "fst (WRSR_OT_DetectSteamID_execute w) = CANCELLED"
    using d f by (simp add: WRSR_OT_DetectSteamID_execute_def)
  show "steamid64 (snd (WRSR_OT_DetectSteamID_execute w)) = steamid64 w"
    using d f r by (simp add: WRSR_OT_DetectSteamID_execute_def report_def)
  show "files (snd (WRSR_OT_DetectSteamID_execute w)) = files w"
    using d f r by (simp add: WRSR_OT_DetectSteamID_execute_def report_def)
  show "reports (snd (WRSR_OT_DetectSteamID_execute w)) =
           reports w @ [(WARNING,
             ''Could not detect SteamID64 automatically. Please enter it manually.'')]"
    using d f r by (simp add: WRSR_OT_DetectSteamID_execute_def report_def)
qed

lemma steam_world_ids:
  "re_findall_id ''x 76561198012345678 y 76561198087654321'' =
     [''76561198012345678'', ''76561198087654321'']"
  by (simp add: re_findall_id_def id_match_at_def re_word_def re_digit_def)

lemma steam_world_candidates:
  "default_steam_paths steam_world =
     [''C:'' @ [CHR 0x5C, CHR 0x5C] @ ''Program Files (x86)/Steam/config/loginusers.vdf'',
      ''C:'' @ [CHR 0x5C, CHR 0x5C] @ ''Program Files/Steam/config/loginusers.vdf'',
      ''cfg.vdf'']"
  by (simp add: default_steam_paths_def Let_def steam_world_def bare_world_simps path_join_def
      path_div_def getenv_default_def Path_def)

lemma steam_world_find:
  "find (\<lambda>p. candidate_ids steam_world p \<noteq> []) (default_steam_paths steam_world) = Some ''cfg.vdf''"
  "candidate_ids steam_world ''cfg.vdf'' = [''76561198012345678'', ''76561198087654321'']"
  unfolding steam_world_candidates
  by (simp_all add: candidate_ids_def path_exists_def read_text_def steam_world_def
      bare_world_simps steam_world_ids)

lemma bare_world_find:
  "find (\<lambda>p. candidate_ids bare_world p \<noteq> []) (default_steam_paths bare_world) = None"
  by (simp add: find_None_iff candidate_ids_def path_exists_def bare_world_simps)

section \<open>The claims\<close>

subsection \<open>The success flag of a login job\<close>




subsection \<open>A missing executable\<close>

text \<open>
  C2, as the code has it. When the executable does not exist, the login operator still
  starts the background thread: the thread is alive when the operator returns, and a
  poll at that moment changes nothing and asks to be called again. The existence check
  is the first thing the thread does: it appends \<open>steamcmd not found: <path>\<close> to the
  emptied log, sets \<open>ok\<close> to false and ends, whatever \<open>popen\<close> would have done. The next
  poll stops the timer, takes \<open>running\<close> from true to false and appends
  \<open>Login did not complete successfully.\<close>
\<close>

theorem missing_executable_login:
  assumes "\<not> path_exists w (bundled_steamcmd_path w)"
  shows "alive (login_started w) (lw_tid (login_worker_of w)) \<and>
         next_tid (login_started w) = Suc (next_tid w) \<and>
         check_done (login_worker_of w) (login_started w) = (Again, login_started w) \<and>
         status_lines (login_job_run w) = [''steamcmd not found: '' @ bundled_steamcmd_path w] \<and>
         dicts (login_job_run w) (worker_done (login_job_run w)) =
           [''ok'' \<mapsto> False, ''running'' \<mapsto> True] \<and>
         \<not> alive (login_job_run w) (lw_tid (login_worker_of w)) \<and>
         fst (check_done (login_worker_of w) (login_job_run w)) = Stop \<and>
         dicts (login_job w) (worker_done (login_job w)) =
           [''ok'' \<mapsto> False, ''running'' \<mapsto> False] \<and>
         status_lines (login_job w) =
           [''steamcmd not found: '' @ bundled_steamcmd_path w,
            ''Login did not complete successfully.'']"
proof -
  let ?wk = "login_worker_of w" and ?w1 = "login_started w"
  have run: "SteamCmdWorker_run ?wk ?w1 =
      dict_set (next_dict w) ''ok'' False
        (append_status (''steamcmd not found: '' @ bundled_steamcmd_path w) ?w1)"
    using assms run_missing [of ?w1 ?wk] by (simp add: login_worker_of_simps)
  have a: "alive ?w1 (lw_tid ?wk)" "next_tid ?w1 = Suc (next_tid w)"
    by (simp_all add: login_started_simps login_worker_of_simps)
  have b: "check_done ?wk ?w1 = (Again, ?w1)"
    by (simp add: check_done_def login_started_simps login_worker_of_simps)
  have c: "status_lines (login_job_run w) = [''steamcmd not found: '' @ bundled_steamcmd_path w]"
    by (simp add: login_job_run_alt login_thread_body_def Let_def run append_status_def
        login_started_simps)
  have d: "dicts (login_job_run w) (next_dict w) = [''ok'' \<mapsto> False, ''running'' \<mapsto> True]"
    by (auto simp: login_job_run_alt login_thread_body_def Let_def run append_status_def
        dict_set_def login_started_simps)
  have e: "fst (check_done ?wk (login_job_run w)) = Stop"
    by (simp add: check_done_def Let_def login_job_run_flags login_worker_of_simps dict_get_def)
  have f: "worker_done (login_job w) = next_dict w"
    by (simp add: login_job_alt check_done_def Let_def login_job_run_flags login_worker_of_simps
        dict_get_def dict_set_def tag_redraws_def append_status_def)
  have g: "dicts (login_job w) (next_dict w) = [''ok'' \<mapsto> False, ''running'' \<mapsto> False]"
    by (auto simp: login_job_alt check_done_def Let_def login_job_run_flags login_worker_of_simps
        dict_get_def dict_set_def tag_redraws_def append_status_def d)
  have h: "status_lines (login_job w) =
           [''steamcmd not found: '' @ bundled_steamcmd_path w,
            ''Login did not complete successfully.'']"
    by (simp add: login_job_status c d dict_get_def)
  show ?thesis
    using a b c d e f g h by (simp add: login_job_run_flags login_worker_of_simps)
qed

theorem missing_executable_login_witness:
  "\<not> path_exists bare_world (bundled_steamcmd_path bare_world) \<and>
   status_lines (login_job bare_world) =
     [''steamcmd not found: addon/steamcmd/steamcmd.exe'',
      ''Login did not complete successfully.'']"
  using missing_executable_login [of bare_world]
  by (simp add: path_defs bare_world_simps)

text \<open>
  The claim as written, that no thread is started, fails: on a machine without the
  executable the operator has started a thread, and that thread is alive.
\<close>

theorem missing_executable_thread_counterexample:
  "\<not> path_exists bare_world (bundled_steamcmd_path bare_world) \<and>
   next_tid (snd (snd (WRSR_OT_LoginSteamCmd_execute bare_world))) = Suc (next_tid bare_world) \<and>
   alive (snd (snd (WRSR_OT_LoginSteamCmd_execute bare_world)))
     (lw_tid (fst (snd (WRSR_OT_LoginSteamCmd_execute bare_world))))"
  by (simp add: login_execute_eq path_defs bare_world_simps)

subsection \<open>Which identifier a login job extracts\<close>

text \<open>
  C3, as the code has it. The last line of the output with a match of the identifier
  pattern determines the extracted identifier: a line with a match followed only by
  lines without one leaves its (leftmost) match as the candidate, whatever came
  before. When no line has a match the candidate is what it was at the start.
\<close>

theorem last_match_wins:
  "(re_search_id (rstrip line) = Some m \<and> (\<forall>l\<in>set post. re_search_id (rstrip l) = None) \<longrightarrow>
      snd (snd (login_scan (pre @ line # post) (buf, ok, c))) = Some m) \<and>
   ((\<forall>l\<in>set out. re_search_id (rstrip l) = None) \<longrightarrow>
      snd (snd (login_scan out (buf, ok, c))) = c)"
  by (simp add: login_scan_cand last_candidate_last last_candidate_none)

theorem last_match_wins_witness:
  "snd (snd (login_scan [''Steam Console'', ''Accepted login for 76561198012345678'', ''Done'']
               ([], False, None))) = Some ''76561198012345678''"
  using last_match_wins [of "''Accepted login for 76561198012345678''" "''76561198012345678''"
      "[''Done'']" "[''Steam Console'']" "[]" False None "[]"]
  by (simp add: accepted_line_id rstrip_def py_isspace_def re_search_id_def id_match_at_def
      re_word_def re_digit_def)

text \<open>
  The claim as written, that the first matching line wins, fails on two matching
  lines: the candidate is the identifier of the second.
\<close>

theorem first_match_counterexample:
  "re_search_id (rstrip ''Accepted login for 76561198012345678'') = Some ''76561198012345678'' \<and>
   re_search_id (rstrip ''Accepted login for 76561198087654321'') = Some ''76561198087654321'' \<and>
   snd (snd (login_scan [''Accepted login for 76561198012345678'',
                         ''Accepted login for 76561198087654321''] ([], False, None)))
     = Some ''76561198087654321''"
proof -
  have "snd (snd (login_scan [''Accepted login for 76561198012345678'',
                         ''Accepted login for 76561198087654321''] ([], False, None)))
     = last_candidate [''Accepted login for 76561198012345678'',
                         ''Accepted login for 76561198087654321''] None"
    by (rule login_scan_cand)
  then show ?thesis by (simp add: accepted_line_id other_line_id)
qed

subsection \<open>The size of the status log\<close>

text \<open>
  C4, as the code has it. While a worker reads the output of its process, the log,
  emptied when the job started, holds the last \<open>tail_limit\<close> = 50 lines of the output
  read so far (each stripped on the right), in the order of arrival; this holds for
  every output, so for every prefix of one. When the thread of a login job has ended
  the log has at most 50 entries; the poller appends its message without trimming, so
  after it the log has at most 51. The log of a build job has at most 50.
\<close>

theorem status_log_tail:
  "tail_limit = 50 \<and>
   fst (login_scan out ([], ok, c)) = drop (length out - tail_limit) (map rstrip out) \<and>
   build_scan out [] = drop (length out - tail_limit) (map rstrip out) \<and>
   length (status_lines (login_job_run w)) \<le> tail_limit \<and>
   length (status_lines (login_job w)) \<le> Suc tail_limit \<and>
   length (status_lines (snd (build_job w))) \<le> tail_limit"
proof -
  have t: "tail_limit = 50" by (simp add: tail_limit_def)
  have b: "build_scan out [] = drop (length out - tail_limit) (map rstrip out)"
    using build_scan_tail [of "[]" out] by simp
  have l: "fst (login_scan out ([], ok, c)) = drop (length out - tail_limit) (map rstrip out)"
    using b by (simp add: login_scan_buf)
  from t b l login_job_run_length [of w] login_job_length [of w] build_job_length [of w]
  show ?thesis by blast
qed

text \<open>
  The claim as written, that the log never exceeds 50 entries, fails for a login job
  whose process prints 50 lines without a success marker: the poller's message is the
  51st entry.
\<close>

theorem status_log_capacity_counterexample:
  "\<not> length (status_lines (login_job (installed_world (replicate 50 ''x'') 0))) \<le> 50"
  by (simp add: many_lines_overflow)

subsection \<open>The identifier store\<close>

text \<open>
  C5, as the code has it. When the write does not fail and the stripped text contains
  no carriage return, writing \<open>x\<close> and reading back gives \<open>x\<close> stripped of surrounding
  whitespace, on either platform.
\<close>

theorem identifier_store_round_trip:
  assumes "write_error w (steamid64_txt_path w) = None" and "CR \<notin> set (strip x)"
  shows "write_then_read x w = strip x"
proof -
  let ?w' = "write_steamid64_to_file x w"
  have "files ?w' (steamid64_txt_path ?w') = File (text_out (platform ?w') (strip x @ [LF]))"
    by (simp add: write_steamid64_ok [OF assms(1)] steamid64_txt_path_def)
  from read_after_write [OF this assms(2)] show ?thesis by (simp add: write_then_read_def)
qed

theorem identifier_store_round_trip_witness:
  "write_then_read ''  76561198012345678 '' bare_world = ''76561198012345678''"
  using identifier_store_round_trip [of bare_world "''  76561198012345678 ''"]
  by (simp add: bare_world_simps strip_def lstrip_def rstrip_def py_isspace_def)

text \<open>
  The claim as written, for any non-empty text, fails for a text with a carriage
  return inside: the file is read in text mode, which turns it into a line feed.
\<close>

theorem identifier_store_counterexample:
  "[CHR ''7'', CR, CHR ''6''] \<noteq> [] \<and>
   write_error bare_world (steamid64_txt_path bare_world) = None \<and>
   write_then_read [CHR ''7'', CR, CHR ''6''] bare_world = [CHR ''7'', LF, CHR ''6''] \<and>
   strip [CHR ''7'', CR, CHR ''6''] = [CHR ''7'', CR, CHR ''6''] \<and>
   write_then_read [CHR ''7'', CR, CHR ''6''] bare_world \<noteq> strip [CHR ''7'', CR, CHR ''6'']"
  by (simp add: write_then_read_def write_steamid64_ok bare_world_simps
      read_steamid64_from_file_def read_text_def path_defs text_out_def
      strip_def lstrip_def rstrip_def py_isspace_def)

subsection \<open>Persisting the scraped identifier\<close>




subsection \<open>Detection from configuration files\<close>

text \<open>
  C7. The detection operator goes through a list of three candidate paths in order.
  A candidate that yields a match ends the scan: what comes after it in the list has
  no influence on the result or on what is printed. The identifier taken is the first
  of the matches of the first candidate that has any, which is the leftmost match in
  its text; the operator stores it, reports it and finishes. When no candidate yields
  a match, the operator reports the warning that asks for manual entry, changes
  neither the identifier field nor any file, and returns \<open>CANCELLED\<close>.
\<close>

theorem detection_first_candidate_wins:
  "length (default_steam_paths w) = 3 \<and>
   (candidate_ids w c \<noteq> [] \<longrightarrow>
      detect_scan (pre @ c # post) w = detect_scan (pre @ [c]) w) \<and>
   (re_findall_id txt \<noteq> [] \<longrightarrow> re_search_id txt = Some (hd (re_findall_id txt))) \<and>
   (case find (\<lambda>p. candidate_ids w p \<noteq> []) (default_steam_paths w) of
      Some p \<Rightarrow>
        fst (WRSR_OT_DetectSteamID_execute w) = FINISHED \<and>
        steamid64 (snd (WRSR_OT_DetectSteamID_execute w)) = hd (candidate_ids w p) \<and>
        reports (snd (WRSR_OT_DetectSteamID_execute w)) =
          reports w @ [(INFO, ''Detected SteamID64: '' @ hd (candidate_ids w p))]
    | None \<Rightarrow>
        fst (WRSR_OT_DetectSteamID_execute w) = CANCELLED \<and>
        steamid64 (snd (WRSR_OT_DetectSteamID_execute w)) = steamid64 w \<and>
        files (snd (WRSR_OT_DetectSteamID_execute w)) = files w \<and>
        reports (snd (WRSR_OT_DetectSteamID_execute w)) =
          reports w @ [(WARNING,
            ''Could not detect SteamID64 automatically. Please enter it manually.'')])"
proof -
  have a: "re_findall_id txt \<noteq> [] \<longrightarrow> re_search_id txt = Some (hd (re_findall_id txt))"
    using findall_first_is_search [of None "txt"]
    by (cases "re_findall_from None txt") (simp_all add: re_search_id_def re_findall_id_def)
  have b: "case find (\<lambda>p. candidate_ids w p \<noteq> []) (default_steam_paths w) of
      Some p \<Rightarrow>
        fst (WRSR_OT_DetectSteamID_execute w) = FINISHED \<and>
        steamid64 (snd (WRSR_OT_DetectSteamID_execute w)) = hd (candidate_ids w p) \<and>
        reports (snd (WRSR_OT_DetectSteamID_execute w)) =
          reports w @ [(INFO, ''Detected SteamID64: '' @ hd (candidate_ids w p))]
    | None \<Rightarrow>
        fst (WRSR_OT_DetectSteamID_execute w) = CANCELLED \<and>
        steamid64 (snd (WRSR_OT_DetectSteamID_execute w)) = steamid64 w \<and>
        files (snd (WRSR_OT_DetectSteamID_execute w)) = files w \<and>
        reports (snd (WRSR_OT_DetectSteamID_execute w)) =
          reports w @ [(WARNING,
            ''Could not detect SteamID64 automatically. Please enter it manually.'')]"
  proof (cases "find (\<lambda>p. candidate_ids w p \<noteq> []) (default_steam_paths w)")
    case None
    from detect_execute_none [OF None] None show ?thesis by simp
  next
    case (Some p)
    from detect_execute_found [OF Some] Some show ?thesis by simp
  qed
  from a b default_steam_paths_length [of w] detect_scan_stops [of w c pre post]
  show ?thesis by blast
qed

theorem detection_first_candidate_wins_witness:
  "fst (WRSR_OT_DetectSteamID_execute steam_world) = FINISHED \<and>
   steamid64 (snd (WRSR_OT_DetectSteamID_execute steam_world)) = ''76561198012345678'' \<and>
   fst (WRSR_OT_DetectSteamID_execute bare_world) = CANCELLED \<and>
   reports (snd (WRSR_OT_DetectSteamID_execute bare_world)) =
     [(WARNING, ''Could not detect SteamID64 automatically. Please enter it manually.'')]"
  using detection_first_candidate_wins [of steam_world undefined undefined undefined undefined]
    detection_first_candidate_wins [of bare_world undefined undefined undefined undefined]
  by (simp add: steam_world_find bare_world_find bare_world_simps)

subsection \<open>The poller of a build job\<close>

text \<open>
  C8. A build worker has no attribute \<open>new_item_id\<close>. So whenever the poller of a
  build job enters its branch for a finished job (\<open>running\<close> set, thread no longer
  alive), it clears \<open>running\<close> and then raises \<open>AttributeError\<close>, emitting neither the
  report of success nor that of failure; and every build job that gets as far as
  starting its worker ends in this way.
\<close>

theorem build_poller_never_completes:
  "build_worker_getattr worker ''new_item_id'' = Inl (AttributeError ''new_item_id'') \<and>
   (dict_get (dicts w (worker_done w)) ''running'' \<and> \<not> alive w (bw_tid worker) \<longrightarrow>
      check worker w =
        (Inl (AttributeError ''new_item_id''), dict_set (worker_done w) ''running'' False w) \<and>
      reports (snd (check worker w)) = reports w) \<and>
   (write_error w' (path_join (platform w') (addon_dir w') ''workshop.vdf'') = None \<longrightarrow>
      fst (build_job w') = Inl (AttributeError ''new_item_id'') \<and>
      reports (snd (build_job w')) = reports w')"
  using build_poller_raises [of w worker] build_job_raises [of w']
  by (simp add: new_item_id_undefined)

theorem build_poller_never_completes_witness:
  "fst (build_job (installed_world [''Uploading'', ''Success.''] 0)) =
     Inl (AttributeError ''new_item_id'') \<and>
   reports (snd (build_job (installed_world [''Uploading'', ''Success.''] 0))) = []"
  using build_poller_never_completes [of undefined undefined "installed_world [''Uploading'', ''Success.''] 0"]
  by (simp add: installed_world_simps)

subsection \<open>Starting a job resets the shared state\<close>



subsection \<open>The poller and the identifier field\<close>

text \<open>
  C10. When the login poller handles a finished, successful job, the identifier field
  of the preferences afterwards is the value read from the identifier file if the
  field was empty, and is unchanged if the field was not empty.
\<close>

theorem poller_keeps_identifier:
  assumes "dict_get (dicts w (worker_done w)) ''running''"
    and "\<not> alive w (lw_tid worker)"
    and "dict_get (dicts w (worker_done w)) ''ok''"
  shows "steamid64 (snd (check_done worker w)) =
           (if steamid64 w = [] then read_steamid64_from_file w else steamid64 w)"
proof -
  have ok: "dict_get (dicts (dict_set (worker_done w) ''running'' False w) (worker_done w)) ''ok''"
    using assms(3) by (simp add: dict_get_def dict_set_def)
  show ?thesis
    using assms(1,2) ok by (simp add: check_done_def Let_def)
qed

theorem poller_keeps_identifier_witness:
  "steamid64 (snd (check_done sample_login_worker
      (finished_login_world ''76561198000000001'' ''76561198012345678''))) = ''76561198000000001'' \<and>
   steamid64 (snd (check_done sample_login_worker
      (finished_login_world [] ''76561198012345678''))) = ''76561198012345678''"
  using poller_keeps_identifier [of "finished_login_world ''76561198000000001'' ''76561198012345678''" sample_login_worker]
    poller_keeps_identifier [of "finished_login_world [] ''76561198012345678''" sample_login_worker]
  by (simp add: finished_login_world_def bare_world_simps sample_login_worker_def dict_get_def
      read_steamid64_from_file_def read_text_def path_defs strip_def lstrip_def rstrip_def
      py_isspace_def)

end
